theory Spec2Isabelle
  imports Complex_Main
begin

section \<open>Numbers\<close>

text \<open>
  The payroll engine of \<^verbatim>\<open>src/app.py\<close> computes on Python floats. They are modelled
  as exact real numbers: the model has no binary representation error, no infinities and
  no NaN. Python's \<^verbatim>\<open>round(x, 2)\<close> rounds to the nearest multiple of 0.01 and
  breaks an exact tie towards the even neighbour; \<^verbatim>\<open>int(x)\<close> truncates towards zero.
\<close>

definition round_half_even :: "real \<Rightarrow> int" where
  "round_half_even x =
     (let f = \<lfloor>x\<rfloor>; d = x - of_int f
      in if d < 1 / 2 then f
         else if 1 / 2 < d then f + 1
         else if even f then f else f + 1)"

definition py_round2 :: "real \<Rightarrow> real" where
  "py_round2 x = of_int (round_half_even (x * 100)) / 100"

definition py_int :: "real \<Rightarrow> int" where
  "py_int x = (if 0 \<le> x then \<lfloor>x\<rfloor> else \<lceil>x\<rceil>)"

text \<open>
  The order a database gives to a \<^verbatim>\<open>String\<close> column: character by character, by
  character code. The month column holds English month names.
\<close>

fun str_less :: "string \<Rightarrow> string \<Rightarrow> bool" where
  "str_less [] [] = False"
| "str_less [] (y # ys) = True"
| "str_less (x # xs) [] = False"
| "str_less (x # xs) (y # ys) =
     ((of_char x :: nat) < of_char y \<or> (x = y \<and> str_less xs ys))"

text \<open>The calendar position of a month name (0 for a string that is no month name).\<close>

definition month_number :: "string \<Rightarrow> nat" where
  "month_number m =
     (if m = ''January'' then 1 else if m = ''February'' then 2
      else if m = ''March'' then 3 else if m = ''April'' then 4
      else if m = ''May'' then 5 else if m = ''June'' then 6
      else if m = ''July'' then 7 else if m = ''August'' then 8
      else if m = ''September'' then 9 else if m = ''October'' then 10
      else if m = ''November'' then 11 else if m = ''December'' then 12
      else 0)"

section \<open>Tables (src/models.py)\<close>

text \<open>
  One record type per table, one field per column. The auto-increment primary keys are
  left out: a table is the list of its rows in insertion order, and a row is identified
  by its position. Dates and timestamps are numbers.
\<close>

record employee =
  emp_id :: string
  name :: string
  email :: string
  designation :: string
  department :: string
  joining_date :: nat
  ctc_monthly :: real
  ctc_annual :: real
  pf_opted :: bool
  leave_balance :: real
  created_by :: string
  created_at :: nat

record payroll =
  emp_id :: string
  month :: string
  year :: int
  total_days :: int
  present_days :: int
  leaves_taken :: real
  paid_days :: int
  loss_of_pay_days :: real
  leave_balance_used :: real
  basic_salary :: real
  hra :: real
  special_allowance :: real
  conveyance_allowance :: real
  medical_allowance :: real
  overtime_amount :: real
  expenses :: real
  bonus :: real
  leave_balance_amount :: real
  pf_employee :: real
  pf_employer :: real
  vpf :: real
  pt :: real
  charity :: real
  misc_deduction :: real
  additional_deduction :: real
  deduction_reason :: string
  gross_salary :: real
  total_deductions :: real
  net_salary :: real
  hike_amount :: real
  processed_by :: string
  processed_at :: nat

record leave_transaction =
  emp_id :: string
  month :: string
  year :: int
  leaves_allocated :: real
  leaves_used :: real
  balance_before :: real
  balance_after :: real

record database =
  employees :: "employee list"
  payrolls :: "payroll list"
  leave_transactions :: "leave_transaction list"

text \<open>
  \<^verbatim>\<open>query.filter_by(...).first()\<close> is \<^const>\<open>find\<close> on the table; assigning to the
  attributes of the row it returned rewrites that row where it stands.
\<close>

fun update_first :: "('a \<Rightarrow> bool) \<Rightarrow> ('a \<Rightarrow> 'a) \<Rightarrow> 'a list \<Rightarrow> 'a list" where
  "update_first P g [] = []"
| "update_first P g (x # xs) = (if P x then g x # xs else x # update_first P g xs)"

section \<open>Salary components (app.py, calculate\_salary\_components)\<close>

text \<open>The dictionary the function returns has a fixed set of keys: a record.\<close>

record components =
  basic :: real
  hra :: real
  conveyance_allowance :: real
  medical_allowance :: real
  overtime_amount :: real
  expenses :: real
  bonus :: real
  leave_balance_amount :: real
  special_allowance :: real
  pf_employee :: real
  pf_employer :: real
  vpf :: real
  pt :: real
  charity :: real
  misc_deduction :: real
  additional_deduction :: real
  gross_salary :: real
  total_deductions :: real
  net_salary :: real

definition calculate_salary_components :: "real \<Rightarrow> bool \<Rightarrow> real \<Rightarrow> components" where
  "calculate_salary_components ctc pf_opt add_ded =
     (let b = py_round2 (ctc * 0.50);
          h = py_round2 (b * 0.20);
          conv = py_round2 (ctc * 0.05);
          med = py_round2 (ctc * 0.05);
          fixed_components = b + h + conv + med;
          remaining = ctc - fixed_components;
          special = py_round2 remaining;
          pf_amount = min (b * 0.12) 1800;
          pf_ee = (if pf_opt then py_round2 pf_amount else 0);
          pf_er = (if pf_opt then py_round2 pf_amount else 0);
          gross = py_round2 (b + h + special + conv + med + 0 + 0 + 0 + 0);
          deductions = py_round2 (pf_ee + 0 + 0 + 0 + 0 + add_ded)
      in \<lparr>components.basic = b,
          components.hra = h,
          components.conveyance_allowance = conv,
          components.medical_allowance = med,
          components.overtime_amount = 0,
          components.expenses = 0,
          components.bonus = 0,
          components.leave_balance_amount = 0,
          components.special_allowance = special,
          components.pf_employee = pf_ee,
          components.pf_employer = pf_er,
          components.vpf = 0,
          components.pt = 0,
          components.charity = 0,
          components.misc_deduction = 0,
          components.additional_deduction = add_ded,
          components.gross_salary = gross,
          components.total_deductions = deductions,
          components.net_salary = py_round2 (gross - deductions)\<rparr>)"

section \<open>Leave ledger (app.py, calculate\_leave\_balance)\<close>

text \<open>
  \<^verbatim>\<open>order_by(LeaveTransaction.year.desc(), LeaveTransaction.month.desc())\<close>: by year,
  then by the month column, which is a string. Among rows with the same year and month
  SQL fixes no order; the model takes the one inserted first.
\<close>

definition period_less :: "leave_transaction \<Rightarrow> leave_transaction \<Rightarrow> bool" where
  "period_less t u =
     (leave_transaction.year t < leave_transaction.year u \<or>
      (leave_transaction.year t = leave_transaction.year u \<and>
       str_less (leave_transaction.month t) (leave_transaction.month u)))"

fun first_desc :: "leave_transaction list \<Rightarrow> leave_transaction option" where
  "first_desc [] = None"
| "first_desc (t # ts) =
     (case first_desc ts of
        None \<Rightarrow> Some t
      | Some u \<Rightarrow> if period_less t u then Some u else Some t)"

definition prev_transaction :: "database \<Rightarrow> string \<Rightarrow> leave_transaction option" where
  "prev_transaction db eid =
     first_desc (filter (\<lambda>t. leave_transaction.emp_id t = eid) (leave_transactions db))"

text \<open>The order the claim about the most recent pay period has in mind: year, then calendar month.\<close>

definition chrono_less :: "leave_transaction \<Rightarrow> leave_transaction \<Rightarrow> bool" where
  "chrono_less t u =
     (leave_transaction.year t < leave_transaction.year u \<or>
      (leave_transaction.year t = leave_transaction.year u \<and>
       month_number (leave_transaction.month t) < month_number (leave_transaction.month u)))"

record leave_info =
  leave_balance_used :: real
  loss_of_pay_days :: real
  remaining_balance :: real
  paid_days :: real
  present_days :: real

definition monthly_allocation :: real where
  "monthly_allocation = 1.5"

definition current_balance :: "database \<Rightarrow> employee \<Rightarrow> real" where
  "current_balance db e =
     (case prev_transaction db (employee.emp_id e) of
        Some t \<Rightarrow> leave_transaction.balance_after t + monthly_allocation
      | None \<Rightarrow> employee.leave_balance e + monthly_allocation)"

text \<open>
  The function returns the dictionary and, as its effect, adds the transaction to the
  session and assigns the employee's \<^verbatim>\<open>leave_balance\<close>. The employee object is
  the row found by its \<^verbatim>\<open>emp_id\<close>, so the assignment rewrites that row.
\<close>

definition calculate_leave_balance ::
  "database \<Rightarrow> employee \<Rightarrow> real \<Rightarrow> string \<Rightarrow> int \<Rightarrow> leave_info \<times> database" where
  "calculate_leave_balance db e taken m y =
     (let cur = current_balance db e;
          used = min taken cur;
          lop = max 0 (taken - cur);
          remaining = cur - used;
          tx = \<lparr>leave_transaction.emp_id = employee.emp_id e,
                leave_transaction.month = m,
                leave_transaction.year = y,
                leave_transaction.leaves_allocated = monthly_allocation,
                leave_transaction.leaves_used = used,
                leave_transaction.balance_before = cur - monthly_allocation,
                leave_transaction.balance_after = remaining\<rparr>
      in (\<lparr>leave_info.leave_balance_used = used,
           leave_info.loss_of_pay_days = lop,
           leave_info.remaining_balance = remaining,
           leave_info.paid_days = 30 - lop,
           leave_info.present_days = 30 - taken\<rparr>,
          db\<lparr>leave_transactions := leave_transactions db @ [tx],
             employees :=
               update_first (\<lambda>x. employee.emp_id x = employee.emp_id e)
                 (\<lambda>x. x\<lparr>employee.leave_balance := remaining\<rparr>)
                 (employees db)\<rparr>))"

section \<open>Single-period processing (app.py, process\_individual\_payroll)\<close>

text \<open>
  The parsed form fields of the request. The user name of the session and the clock are
  further inputs of a run.
\<close>

record form =
  emp_id :: string
  leaves_taken :: real
  month :: string
  year :: int
  pf_opted :: bool
  hike_amount :: real
  deduction_amount :: real
  deduction_reason :: string
  overtime_amount :: real
  expenses :: real
  bonus :: real

text \<open>
  Lines 2591 to 2620: the components for this period, from the employee's stored CTC plus
  the form's hike, scaled for loss of pay, with the variable earnings written in and the
  gross and net totals recalculated.
\<close>

definition scale_for_loss_of_pay :: "leave_info \<Rightarrow> components \<Rightarrow> components" where
  "scale_for_loss_of_pay info sc =
     (if 0 < leave_info.loss_of_pay_days info then
        (let loss_ratio = leave_info.loss_of_pay_days info / 30.0
         in sc\<lparr>components.basic := py_round2 (components.basic sc * (1 - loss_ratio)),
               components.hra := py_round2 (components.hra sc * (1 - loss_ratio)),
               components.special_allowance :=
                 py_round2 (components.special_allowance sc * (1 - loss_ratio)),
               components.conveyance_allowance :=
                 py_round2 (components.conveyance_allowance sc * (1 - loss_ratio)),
               components.medical_allowance :=
                 py_round2 (components.medical_allowance sc * (1 - loss_ratio))\<rparr>)
      else sc)"

definition recalculate_totals :: "components \<Rightarrow> components" where
  "recalculate_totals sc =
     (let gross = py_round2
            (components.basic sc + components.hra sc + components.special_allowance sc +
             components.conveyance_allowance sc + components.medical_allowance sc +
             components.overtime_amount sc + components.expenses sc + components.bonus sc +
             components.leave_balance_amount sc)
      in sc\<lparr>components.gross_salary := gross,
            components.net_salary := py_round2 (gross - components.total_deductions sc)\<rparr>)"

definition period_components :: "employee \<Rightarrow> form \<Rightarrow> leave_info \<Rightarrow> components" where
  "period_components e f info =
     (let ctc = employee.ctc_monthly e + form.hike_amount f;
          sc = calculate_salary_components ctc (form.pf_opted f) (form.deduction_amount f);
          sc = scale_for_loss_of_pay info sc;
          sc = sc\<lparr>components.overtime_amount := form.overtime_amount f,
                  components.expenses := form.expenses f,
                  components.bonus := form.bonus f,
                  components.leave_balance_amount := leave_info.remaining_balance info * 100\<rparr>
      in recalculate_totals sc)"

text \<open>Lines 2629 to 2659: every column but the key is assigned on the existing row.\<close>

definition update_existing ::
  "form \<Rightarrow> leave_info \<Rightarrow> components \<Rightarrow> string \<Rightarrow> nat \<Rightarrow> payroll \<Rightarrow> payroll" where
  "update_existing f info sc username now existing =
     existing\<lparr>payroll.total_days := 30,
              payroll.present_days := py_int (leave_info.present_days info),
              payroll.leaves_taken := form.leaves_taken f,
              payroll.paid_days := py_int (leave_info.paid_days info),
              payroll.loss_of_pay_days := leave_info.loss_of_pay_days info,
              payroll.leave_balance_used := leave_info.leave_balance_used info,
              payroll.basic_salary := components.basic sc,
              payroll.hra := components.hra sc,
              payroll.special_allowance := components.special_allowance sc,
              payroll.conveyance_allowance := components.conveyance_allowance sc,
              payroll.medical_allowance := components.medical_allowance sc,
              payroll.overtime_amount := components.overtime_amount sc,
              payroll.expenses := components.expenses sc,
              payroll.bonus := components.bonus sc,
              payroll.leave_balance_amount := components.leave_balance_amount sc,
              payroll.pf_employee := components.pf_employee sc,
              payroll.pf_employer := components.pf_employer sc,
              payroll.vpf := components.vpf sc,
              payroll.pt := components.pt sc,
              payroll.charity := components.charity sc,
              payroll.misc_deduction := components.misc_deduction sc,
              payroll.additional_deduction := components.additional_deduction sc,
              payroll.deduction_reason := form.deduction_reason f,
              payroll.total_deductions := components.total_deductions sc,
              payroll.gross_salary := components.gross_salary sc,
              payroll.net_salary := components.net_salary sc,
              payroll.hike_amount := form.hike_amount f,
              payroll.processed_by := username,
              payroll.processed_at := now\<rparr>"

text \<open>Lines 2662 to 2697: a new row, with the key and the same columns.\<close>

definition new_payroll ::
  "form \<Rightarrow> leave_info \<Rightarrow> components \<Rightarrow> string \<Rightarrow> nat \<Rightarrow> payroll" where
  "new_payroll f info sc username now =
     \<lparr>payroll.emp_id = form.emp_id f,
      payroll.month = form.month f,
      payroll.year = form.year f,
      payroll.total_days = 30,
      payroll.present_days = py_int (leave_info.present_days info),
      payroll.leaves_taken = form.leaves_taken f,
      payroll.paid_days = py_int (leave_info.paid_days info),
      payroll.loss_of_pay_days = leave_info.loss_of_pay_days info,
      payroll.leave_balance_used = leave_info.leave_balance_used info,
      payroll.basic_salary = components.basic sc,
      payroll.hra = components.hra sc,
      payroll.special_allowance = components.special_allowance sc,
      payroll.conveyance_allowance = components.conveyance_allowance sc,
      payroll.medical_allowance = components.medical_allowance sc,
      payroll.overtime_amount = components.overtime_amount sc,
      payroll.expenses = components.expenses sc,
      payroll.bonus = components.bonus sc,
      payroll.leave_balance_amount = components.leave_balance_amount sc,
      payroll.pf_employee = components.pf_employee sc,
      payroll.pf_employer = components.pf_employer sc,
      payroll.vpf = components.vpf sc,
      payroll.pt = components.pt sc,
      payroll.charity = components.charity sc,
      payroll.misc_deduction = components.misc_deduction sc,
      payroll.additional_deduction = components.additional_deduction sc,
      payroll.deduction_reason = form.deduction_reason f,
      payroll.gross_salary = components.gross_salary sc,
      payroll.total_deductions = components.total_deductions sc,
      payroll.net_salary = components.net_salary sc,
      payroll.hike_amount = form.hike_amount f,
      payroll.processed_by = username,
      payroll.processed_at = now\<rparr>"

definition same_period :: "form \<Rightarrow> payroll \<Rightarrow> bool" where
  "same_period f p =
     (payroll.emp_id p = form.emp_id f \<and> payroll.month p = form.month f \<and>
      payroll.year p = form.year f)"

text \<open>The natural key of a payroll row.\<close>

definition payroll_key :: "payroll \<Rightarrow> string \<times> string \<times> int" where
  "payroll_key p = (payroll.emp_id p, payroll.month p, payroll.year p)"

definition find_employee :: "database \<Rightarrow> string \<Rightarrow> employee option" where
  "find_employee db eid = find (\<lambda>e. employee.emp_id e = eid) (employees db)"

definition find_payroll :: "database \<Rightarrow> form \<Rightarrow> payroll option" where
  "find_payroll db f = find (same_period f) (payrolls db)"

text \<open>
  A run with an unknown employee returns before anything is written. The form is taken
  as parsed: a run whose fields do not parse raises, is rolled back and writes nothing.
\<close>

definition process_individual_payroll :: "database \<Rightarrow> form \<Rightarrow> string \<Rightarrow> nat \<Rightarrow> database" where
  "process_individual_payroll db f username now =
     (case find_employee db (form.emp_id f) of
        None \<Rightarrow> db
      | Some e \<Rightarrow>
          (let (info, db1) =
                 calculate_leave_balance db e (form.leaves_taken f) (form.month f) (form.year f);
               sc = period_components e f info
           in case find_payroll db1 f of
                Some existing \<Rightarrow>
                  db1\<lparr>payrolls :=
                        update_first (same_period f) (update_existing f info sc username now)
                          (payrolls db1)\<rparr>
              | None \<Rightarrow>
                  db1\<lparr>payrolls := payrolls db1 @ [new_payroll f info sc username now]\<rparr>))"

text \<open>A sequence of runs, each with its form, user name and clock.\<close>

fun process_runs :: "database \<Rightarrow> (form \<times> string \<times> nat) list \<Rightarrow> database" where
  "process_runs db [] = db"
| "process_runs db ((f, username, now) # rs) =
     process_runs (process_individual_payroll db f username now) rs"

section \<open>Permanent hike (app.py, apply\_hike)\<close>


section \<open>Amounts in whole paise\<close>

text \<open>A number with at most two decimals: what \<^const>\<open>py_round2\<close> returns and leaves alone.\<close>

definition cents :: "real \<Rightarrow> bool" where
  "cents x = (x * 100 \<in> \<int>)"

section \<open>Example data\<close>

text \<open>
  An employee as \<^verbatim>\<open>add_employee\<close> creates one (the leave balance starts at 1.5), in
  a database with nothing processed yet, and the forms of some runs.
\<close>

definition emp_E1 :: employee where
  "emp_E1 =
     \<lparr>employee.emp_id = ''E1'',
      employee.name = ''Asha'',
      employee.email = ''asha@example.com'',
      employee.designation = ''Engineer'',
      employee.department = ''IT'',
      employee.joining_date = 0,
      employee.ctc_monthly = 50000,
      employee.ctc_annual = 600000,
      employee.pf_opted = True,
      employee.leave_balance = 1.5,
      employee.created_by = ''admin'',
      employee.created_at = 0\<rparr>"

definition db0 :: database where
  "db0 = \<lparr>employees = [emp_E1], payrolls = [], leave_transactions = []\<rparr>"

definition form_E1 :: "string \<Rightarrow> real \<Rightarrow> form" where
  "form_E1 m taken =
     \<lparr>form.emp_id = ''E1'',
      form.leaves_taken = taken,
      form.month = m,
      form.year = 2024,
      form.pf_opted = True,
      form.hike_amount = 0,
      form.deduction_amount = 0,
      form.deduction_reason = [],
      form.overtime_amount = 0,
      form.expenses = 0,
      form.bonus = 0\<rparr>"

text \<open>
  The database after one run for January 2024 on \<^const>\<open>db0\<close>: with a
  fractional overtime amount, with 18 and with 3.5 days of leave, and with none.
\<close>

definition db_overtime :: database where
  "db_overtime =
     process_individual_payroll db0
       ((form_E1 ''January'' 0)\<lparr>form.overtime_amount := 0.004\<rparr>) ''hr'' 0"

definition db_lop15 :: database where
  "db_lop15 = process_individual_payroll db0 (form_E1 ''January'' 18) ''hr'' 0"

definition db_half_day :: database where
  "db_half_day = process_individual_payroll db0 (form_E1 ''January'' 3.5) ''hr'' 0"

definition db_january :: database where
  "db_january = process_individual_payroll db0 (form_E1 ''January'' 0) ''hr'' 0"

text \<open>
  January and February 2024 processed in this order, then March; and a January run
  with a one-off hike of 5000.
\<close>

definition db_jan_feb :: database where
  "db_jan_feb =
     process_runs db0
       [(form_E1 ''January'' 0, ''hr'', 0), (form_E1 ''February'' 0, ''hr'', 1)]"

definition db_march :: database where
  "db_march = process_individual_payroll db_jan_feb (form_E1 ''March'' 0) ''hr'' 2"


section \<open>Rounding\<close>

lemma round_half_even_error: "\<bar>of_int (round_half_even x) - x\<bar> \<le> 1 / 2"
proof -
  have "of_int \<lfloor>x\<rfloor> \<le> x" and "x < of_int \<lfloor>x\<rfloor> + 1" by linarith+
  then show ?thesis
    by (auto simp: round_half_even_def Let_def)
qed

lemma round_half_even_of_int: "round_half_even (of_int k) = k"
  by (simp add: round_half_even_def)

lemma py_round2_error: "\<bar>py_round2 x - x\<bar> \<le> 1 / 200"
proof -
  have "\<bar>of_int (round_half_even (x * 100)) - x * 100\<bar> \<le> 1 / 2"
    by (rule round_half_even_error)
  then show ?thesis
    by (simp add: py_round2_def abs_le_iff field_simps)
qed

lemma cents_py_round2: "cents (py_round2 x)"
  by (simp add: cents_def py_round2_def)

lemma py_round2_cents: "cents x \<Longrightarrow> py_round2 x = x"
proof -
  assume "cents x"
  then obtain k :: int where k: "x * 100 = of_int k"
    by (auto simp: cents_def elim: Ints_cases)
  then show ?thesis
    by (simp add: py_round2_def round_half_even_of_int)
qed

lemma cents_diff: "cents x \<Longrightarrow> cents y \<Longrightarrow> cents (x - y)"
  by (simp add: cents_def left_diff_distrib)

lemma cents_add: "cents x \<Longrightarrow> cents y \<Longrightarrow> cents (x + y)"
  by (simp add: cents_def distrib_right)

section \<open>Tables and runs\<close>

lemma find_update_first:
  "(\<And>x. P x \<Longrightarrow> P (g x)) \<Longrightarrow> find P (update_first P g xs) = map_option g (find P xs)"
  by (induction xs) auto

lemma update_first_absent: "find P xs = None \<Longrightarrow> update_first P g xs = xs"
  by (induction xs) (auto split: if_splits)

lemma length_update_first: "length (update_first P g xs) = length xs"
  by (induction xs) auto

lemma map_update_first:
  "(\<And>x. P x \<Longrightarrow> k (g x) = k x) \<Longrightarrow> map k (update_first P g xs) = map k xs"
  by (induction xs) auto

lemma find_append_new: "find P xs = None \<Longrightarrow> P n \<Longrightarrow> find P (xs @ [n]) = Some n"
  by (induction xs) (auto split: if_splits)

lemma update_first_cong_on:
  "(\<And>x. P x \<Longrightarrow> g x = h x) \<Longrightarrow> update_first P g xs = update_first P h xs"
  by (induction xs) auto

lemma find_other_update_first:
  "(\<And>x. Q (g x) = Q x) \<Longrightarrow> (\<And>x. P x \<Longrightarrow> \<not> Q x) \<Longrightarrow>
   find Q (update_first P g xs) = find Q xs"
  by (induction xs) auto

lemma update_existing_eq_new:
  "same_period f p \<Longrightarrow> update_existing f info sc u now p = new_payroll f info sc u now"
  by (simp add: same_period_def update_existing_def new_payroll_def)

lemma same_period_new: "same_period f (new_payroll f info sc u now)"
  by (simp add: same_period_def new_payroll_def)

lemma clb_fst:
  "fst (calculate_leave_balance db e taken m y) =
     \<lparr>leave_info.leave_balance_used = min taken (current_balance db e),
      leave_info.loss_of_pay_days = max 0 (taken - current_balance db e),
      leave_info.remaining_balance = current_balance db e - min taken (current_balance db e),
      leave_info.paid_days = 30 - max 0 (taken - current_balance db e),
      leave_info.present_days = 30 - taken\<rparr>"
  by (simp add: calculate_leave_balance_def Let_def)

lemma clb_payrolls: "payrolls (snd (calculate_leave_balance db e taken m y)) = payrolls db"
  by (simp add: calculate_leave_balance_def Let_def)

lemma clb_transactions:
  "leave_transactions (snd (calculate_leave_balance db e taken m y)) =
     leave_transactions db @
       [\<lparr>leave_transaction.emp_id = employee.emp_id e,
         leave_transaction.month = m,
         leave_transaction.year = y,
         leave_transaction.leaves_allocated = monthly_allocation,
         leave_transaction.leaves_used = min taken (current_balance db e),
         leave_transaction.balance_before = current_balance db e - monthly_allocation,
         leave_transaction.balance_after =
           current_balance db e - min taken (current_balance db e)\<rparr>]"
  by (simp add: calculate_leave_balance_def Let_def)

lemma clb_employees:
  "employees (snd (calculate_leave_balance db e taken m y)) =
     update_first (\<lambda>x. employee.emp_id x = employee.emp_id e)
       (\<lambda>x. x\<lparr>employee.leave_balance :=
                 current_balance db e - min taken (current_balance db e)\<rparr>)
       (employees db)"
  by (simp add: calculate_leave_balance_def Let_def)

lemma process_payrolls:
  assumes "find_employee db (form.emp_id f) = Some e"
  shows "payrolls (process_individual_payroll db f u now) =
     (let info = fst (calculate_leave_balance db e (form.leaves_taken f) (form.month f) (form.year f));
          p = new_payroll f info (period_components e f info) u now
      in case find_payroll db f of
           Some existing \<Rightarrow> update_first (same_period f) (\<lambda>_. p) (payrolls db)
         | None \<Rightarrow> payrolls db @ [p])"
proof -
  obtain info db1 where c:
    "calculate_leave_balance db e (form.leaves_taken f) (form.month f) (form.year f) = (info, db1)"
    by (cases "calculate_leave_balance db e (form.leaves_taken f) (form.month f) (form.year f)")
  have p1: "payrolls db1 = payrolls db"
    using clb_payrolls [of db e "form.leaves_taken f" "form.month f" "form.year f"] c by simp
  have u: "update_first (same_period f)
             (update_existing f info (period_components e f info) u now) (payrolls db) =
           update_first (same_period f)
             (\<lambda>_. new_payroll f info (period_components e f info) u now) (payrolls db)"
    by (rule update_first_cong_on) (rule update_existing_eq_new)
  show ?thesis
    using assms c p1 u
    by (simp add: process_individual_payroll_def find_payroll_def Let_def split: option.splits)
qed

lemma process_stores_record:
  assumes "find_employee db (form.emp_id f) = Some e"
  shows "find_payroll (process_individual_payroll db f u now) f =
     Some (new_payroll f
            (fst (calculate_leave_balance db e (form.leaves_taken f) (form.month f) (form.year f)))
            (period_components e f
              (fst (calculate_leave_balance db e (form.leaves_taken f) (form.month f) (form.year f))))
            u now)"
proof (cases "find_payroll db f")
  case None
  then show ?thesis
    using process_payrolls [OF assms, of u now]
    by (simp add: find_payroll_def Let_def find_append_new same_period_new)
next
  case (Some ex)
  then show ?thesis
    using process_payrolls [OF assms, of u now]
    by (simp add: find_payroll_def Let_def find_update_first same_period_new)
qed

lemma process_transactions:
  assumes "find_employee db (form.emp_id f) = Some e"
  shows "leave_transactions (process_individual_payroll db f u now) =
     leave_transactions (snd (calculate_leave_balance db e (form.leaves_taken f) (form.month f) (form.year f)))"
  using assms
  by (simp add: process_individual_payroll_def Let_def split: option.splits prod.splits)


lemma process_unknown_employee:
  "find_employee db (form.emp_id f) = None \<Longrightarrow> process_individual_payroll db f u now = db"
  by (simp add: process_individual_payroll_def)

lemma py_int_whole: "x \<in> \<int> \<Longrightarrow> of_int (py_int x) = x"
  by (auto simp: py_int_def elim!: Ints_cases)

section \<open>The salary split, field by field\<close>

lemma csc_basic: "components.basic (calculate_salary_components ctc pf d) = py_round2 (ctc * 0.50)"
  by (simp add: calculate_salary_components_def Let_def)

lemma csc_hra:
  "components.hra (calculate_salary_components ctc pf d) = py_round2 (py_round2 (ctc * 0.50) * 0.20)"
  by (simp add: calculate_salary_components_def Let_def)

lemma csc_conveyance:
  "components.conveyance_allowance (calculate_salary_components ctc pf d) = py_round2 (ctc * 0.05)"
  by (simp add: calculate_salary_components_def Let_def)

lemma csc_medical:
  "components.medical_allowance (calculate_salary_components ctc pf d) = py_round2 (ctc * 0.05)"
  by (simp add: calculate_salary_components_def Let_def)

lemma csc_special:
  "components.special_allowance (calculate_salary_components ctc pf d) =
     py_round2 (ctc - (py_round2 (ctc * 0.50) + py_round2 (py_round2 (ctc * 0.50) * 0.20) +
                       py_round2 (ctc * 0.05) + py_round2 (ctc * 0.05)))"
  by (simp add: calculate_salary_components_def Let_def)

lemma csc_pf_employee:
  "components.pf_employee (calculate_salary_components ctc pf d) =
     (if pf then py_round2 (min (py_round2 (ctc * 0.50) * 0.12) 1800) else 0)"
  by (simp add: calculate_salary_components_def Let_def)

lemma csc_pf_employer:
  "components.pf_employer (calculate_salary_components ctc pf d) =
     (if pf then py_round2 (min (py_round2 (ctc * 0.50) * 0.12) 1800) else 0)"
  by (simp add: calculate_salary_components_def Let_def)

lemma csc_variable:
  "components.overtime_amount (calculate_salary_components ctc pf d) = 0"
  "components.expenses (calculate_salary_components ctc pf d) = 0"
  "components.bonus (calculate_salary_components ctc pf d) = 0"
  "components.leave_balance_amount (calculate_salary_components ctc pf d) = 0"
  by (simp_all add: calculate_salary_components_def Let_def)

lemma csc_other_deductions:
  "components.vpf (calculate_salary_components ctc pf d) = 0"
  "components.pt (calculate_salary_components ctc pf d) = 0"
  "components.charity (calculate_salary_components ctc pf d) = 0"
  "components.misc_deduction (calculate_salary_components ctc pf d) = 0"
  "components.additional_deduction (calculate_salary_components ctc pf d) = d"
  by (simp_all add: calculate_salary_components_def Let_def)

lemma csc_total_deductions:
  "components.total_deductions (calculate_salary_components ctc pf d) =
     py_round2 (components.pf_employee (calculate_salary_components ctc pf d) + d)"
  by (simp add: calculate_salary_components_def Let_def)

lemma csc_gross:
  "components.gross_salary (calculate_salary_components ctc pf d) =
     py_round2 (components.basic (calculate_salary_components ctc pf d) +
                components.hra (calculate_salary_components ctc pf d) +
                components.special_allowance (calculate_salary_components ctc pf d) +
                components.conveyance_allowance (calculate_salary_components ctc pf d) +
                components.medical_allowance (calculate_salary_components ctc pf d))"
  by (simp add: calculate_salary_components_def Let_def)

lemma csc_net:
  "components.net_salary (calculate_salary_components ctc pf d) =
     py_round2 (components.gross_salary (calculate_salary_components ctc pf d) -
                components.total_deductions (calculate_salary_components ctc pf d))"
  by (simp add: calculate_salary_components_def Let_def)

lemma py_round2_diff_rounded: "py_round2 (py_round2 x - py_round2 y) = py_round2 x - py_round2 y"
  by (intro py_round2_cents cents_diff cents_py_round2)

lemma rt_gross:
  "components.gross_salary (recalculate_totals sc) =
     py_round2 (components.basic sc + components.hra sc + components.special_allowance sc +
       components.conveyance_allowance sc + components.medical_allowance sc +
       components.overtime_amount sc + components.expenses sc + components.bonus sc +
       components.leave_balance_amount sc)"
  by (simp add: recalculate_totals_def Let_def)

lemma rt_net:
  "components.net_salary (recalculate_totals sc) =
     py_round2 (components.gross_salary (recalculate_totals sc) - components.total_deductions sc)"
  by (simp add: recalculate_totals_def Let_def)

lemma rt_kept:
  "components.basic (recalculate_totals sc) = components.basic sc"
  "components.hra (recalculate_totals sc) = components.hra sc"
  "components.special_allowance (recalculate_totals sc) = components.special_allowance sc"
  "components.conveyance_allowance (recalculate_totals sc) = components.conveyance_allowance sc"
  "components.medical_allowance (recalculate_totals sc) = components.medical_allowance sc"
  "components.overtime_amount (recalculate_totals sc) = components.overtime_amount sc"
  "components.expenses (recalculate_totals sc) = components.expenses sc"
  "components.bonus (recalculate_totals sc) = components.bonus sc"
  "components.leave_balance_amount (recalculate_totals sc) = components.leave_balance_amount sc"
  "components.pf_employee (recalculate_totals sc) = components.pf_employee sc"
  "components.pf_employer (recalculate_totals sc) = components.pf_employer sc"
  "components.vpf (recalculate_totals sc) = components.vpf sc"
  "components.pt (recalculate_totals sc) = components.pt sc"
  "components.charity (recalculate_totals sc) = components.charity sc"
  "components.misc_deduction (recalculate_totals sc) = components.misc_deduction sc"
  "components.additional_deduction (recalculate_totals sc) = components.additional_deduction sc"
  "components.total_deductions (recalculate_totals sc) = components.total_deductions sc"
  by (simp_all add: recalculate_totals_def Let_def)

lemma scale_deductions:
  "components.pf_employee (scale_for_loss_of_pay info sc) = components.pf_employee sc"
  "components.pf_employer (scale_for_loss_of_pay info sc) = components.pf_employer sc"
  "components.vpf (scale_for_loss_of_pay info sc) = components.vpf sc"
  "components.pt (scale_for_loss_of_pay info sc) = components.pt sc"
  "components.charity (scale_for_loss_of_pay info sc) = components.charity sc"
  "components.misc_deduction (scale_for_loss_of_pay info sc) = components.misc_deduction sc"
  "components.additional_deduction (scale_for_loss_of_pay info sc) =
     components.additional_deduction sc"
  "components.total_deductions (scale_for_loss_of_pay info sc) = components.total_deductions sc"
  by (simp_all add: scale_for_loss_of_pay_def Let_def)

lemma scale_earnings:
  "0 < leave_info.loss_of_pay_days info \<Longrightarrow>
   components.basic (scale_for_loss_of_pay info sc) =
     py_round2 (components.basic sc * (1 - leave_info.loss_of_pay_days info / 30))"
  "0 < leave_info.loss_of_pay_days info \<Longrightarrow>
   components.hra (scale_for_loss_of_pay info sc) =
     py_round2 (components.hra sc * (1 - leave_info.loss_of_pay_days info / 30))"
  "0 < leave_info.loss_of_pay_days info \<Longrightarrow>
   components.special_allowance (scale_for_loss_of_pay info sc) =
     py_round2 (components.special_allowance sc * (1 - leave_info.loss_of_pay_days info / 30))"
  "0 < leave_info.loss_of_pay_days info \<Longrightarrow>
   components.conveyance_allowance (scale_for_loss_of_pay info sc) =
     py_round2 (components.conveyance_allowance sc * (1 - leave_info.loss_of_pay_days info / 30))"
  "0 < leave_info.loss_of_pay_days info \<Longrightarrow>
   components.medical_allowance (scale_for_loss_of_pay info sc) =
     py_round2 (components.medical_allowance sc * (1 - leave_info.loss_of_pay_days info / 30))"
  by (simp_all add: scale_for_loss_of_pay_def Let_def)

text \<open>The components of a period, field by field, in terms of the unscaled split.\<close>

lemma pc_earnings:
  "components.basic (period_components e f info) =
     components.basic (scale_for_loss_of_pay info
       (calculate_salary_components (employee.ctc_monthly e + form.hike_amount f)
          (form.pf_opted f) (form.deduction_amount f)))"
  "components.hra (period_components e f info) =
     components.hra (scale_for_loss_of_pay info
       (calculate_salary_components (employee.ctc_monthly e + form.hike_amount f)
          (form.pf_opted f) (form.deduction_amount f)))"
  "components.special_allowance (period_components e f info) =
     components.special_allowance (scale_for_loss_of_pay info
       (calculate_salary_components (employee.ctc_monthly e + form.hike_amount f)
          (form.pf_opted f) (form.deduction_amount f)))"
  "components.conveyance_allowance (period_components e f info) =
     components.conveyance_allowance (scale_for_loss_of_pay info
       (calculate_salary_components (employee.ctc_monthly e + form.hike_amount f)
          (form.pf_opted f) (form.deduction_amount f)))"
  "components.medical_allowance (period_components e f info) =
     components.medical_allowance (scale_for_loss_of_pay info
       (calculate_salary_components (employee.ctc_monthly e + form.hike_amount f)
          (form.pf_opted f) (form.deduction_amount f)))"
  by (simp_all add: period_components_def Let_def rt_kept)

lemma pc_variable:
  "components.overtime_amount (period_components e f info) = form.overtime_amount f"
  "components.expenses (period_components e f info) = form.expenses f"
  "components.bonus (period_components e f info) = form.bonus f"
  "components.leave_balance_amount (period_components e f info) =
     leave_info.remaining_balance info * 100"
  by (simp_all add: period_components_def Let_def rt_kept)

lemma pc_deductions:
  "components.pf_employee (period_components e f info) =
     components.pf_employee (calculate_salary_components
       (employee.ctc_monthly e + form.hike_amount f) (form.pf_opted f) (form.deduction_amount f))"
  "components.pf_employer (period_components e f info) =
     components.pf_employer (calculate_salary_components
       (employee.ctc_monthly e + form.hike_amount f) (form.pf_opted f) (form.deduction_amount f))"
  "components.vpf (period_components e f info) = 0"
  "components.pt (period_components e f info) = 0"
  "components.charity (period_components e f info) = 0"
  "components.misc_deduction (period_components e f info) = 0"
  "components.additional_deduction (period_components e f info) = form.deduction_amount f"
  "components.total_deductions (period_components e f info) =
     components.total_deductions (calculate_salary_components
       (employee.ctc_monthly e + form.hike_amount f) (form.pf_opted f) (form.deduction_amount f))"
  by (simp_all add: period_components_def Let_def rt_kept scale_deductions csc_other_deductions)

lemma pc_gross:
  "components.gross_salary (period_components e f info) =
     py_round2 (components.basic (period_components e f info) +
       components.hra (period_components e f info) +
       components.special_allowance (period_components e f info) +
       components.conveyance_allowance (period_components e f info) +
       components.medical_allowance (period_components e f info) +
       components.overtime_amount (period_components e f info) +
       components.expenses (period_components e f info) +
       components.bonus (period_components e f info) +
       components.leave_balance_amount (period_components e f info))"
  by (simp add: period_components_def Let_def rt_gross rt_kept)

lemma pc_net:
  "components.net_salary (period_components e f info) =
     py_round2 (components.gross_salary (period_components e f info) -
                components.total_deductions (period_components e f info))"
  by (simp add: period_components_def Let_def rt_net rt_kept)

lemma pc_total_deductions:
  "components.total_deductions (period_components e f info) =
     py_round2 (components.pf_employee (period_components e f info) +
       components.vpf (period_components e f info) +
       components.pt (period_components e f info) +
       components.charity (period_components e f info) +
       components.misc_deduction (period_components e f info) +
       components.additional_deduction (period_components e f info))"
  by (simp add: pc_deductions csc_total_deductions)

lemma pc_net_exact:
  "components.net_salary (period_components e f info) =
     components.gross_salary (period_components e f info) -
     components.total_deductions (period_components e f info)"
proof -
  have g: "cents (components.gross_salary (period_components e f info))"
    unfolding pc_gross by (rule cents_py_round2)
  have d: "cents (components.total_deductions (period_components e f info))"
    unfolding pc_total_deductions by (rule cents_py_round2)
  show ?thesis
    unfolding pc_net [of e f info] using g d by (intro py_round2_cents cents_diff)
qed

lemma csc_net_exact:
  "components.net_salary (calculate_salary_components ctc pf d) =
     components.gross_salary (calculate_salary_components ctc pf d) -
     components.total_deductions (calculate_salary_components ctc pf d)"
proof -
  have g: "cents (components.gross_salary (calculate_salary_components ctc pf d))"
    unfolding csc_gross by (rule cents_py_round2)
  have t: "cents (components.total_deductions (calculate_salary_components ctc pf d))"
    unfolding csc_total_deductions by (rule cents_py_round2)
  show ?thesis
    unfolding csc_net [of ctc pf d] using g t by (intro py_round2_cents cents_diff)
qed

section \<open>The example database\<close>

lemma find_employee_db0: "find_employee db0 ''E1'' = Some emp_E1"
  by (simp add: find_employee_def db0_def emp_E1_def)

lemma find_payroll_db0: "find_payroll db0 f = None"
  by (simp add: find_payroll_def db0_def)

lemma current_balance_db0: "current_balance db0 emp_E1 = 3"
  by (simp add: current_balance_def prev_transaction_def db0_def emp_E1_def
      monthly_allocation_def)

lemma form_E1_fields:
  "form.emp_id (form_E1 m t) = ''E1''"
  "form.leaves_taken (form_E1 m t) = t"
  "form.month (form_E1 m t) = m"
  "form.year (form_E1 m t) = 2024"
  "form.pf_opted (form_E1 m t) = True"
  "form.hike_amount (form_E1 m t) = 0"
  "form.deduction_amount (form_E1 m t) = 0"
  "form.overtime_amount (form_E1 m t) = 0"
  "form.expenses (form_E1 m t) = 0"
  "form.bonus (form_E1 m t) = 0"
  by (simp_all add: form_E1_def)

lemma first_run_payrolls:
  "form.emp_id f = ''E1'' \<Longrightarrow>
   payrolls (process_individual_payroll db0 f u now) =
     [new_payroll f
        (fst (calculate_leave_balance db0 emp_E1 (form.leaves_taken f) (form.month f) (form.year f)))
        (period_components emp_E1 f
          (fst (calculate_leave_balance db0 emp_E1 (form.leaves_taken f) (form.month f) (form.year f))))
        u now]"
  using process_payrolls [of db0 f emp_E1 u now]
  by (simp add: find_employee_db0 find_payroll_db0 Let_def) (simp add: db0_def)

lemma np_fields:
  "payroll.total_days (new_payroll f info sc u now) = 30"
  "payroll.present_days (new_payroll f info sc u now) = py_int (leave_info.present_days info)"
  "payroll.leaves_taken (new_payroll f info sc u now) = form.leaves_taken f"
  "payroll.paid_days (new_payroll f info sc u now) = py_int (leave_info.paid_days info)"
  "payroll.loss_of_pay_days (new_payroll f info sc u now) = leave_info.loss_of_pay_days info"
  "payroll.basic_salary (new_payroll f info sc u now) = components.basic sc"
  "payroll.hra (new_payroll f info sc u now) = components.hra sc"
  "payroll.special_allowance (new_payroll f info sc u now) = components.special_allowance sc"
  "payroll.conveyance_allowance (new_payroll f info sc u now) = components.conveyance_allowance sc"
  "payroll.medical_allowance (new_payroll f info sc u now) = components.medical_allowance sc"
  "payroll.overtime_amount (new_payroll f info sc u now) = components.overtime_amount sc"
  "payroll.expenses (new_payroll f info sc u now) = components.expenses sc"
  "payroll.bonus (new_payroll f info sc u now) = components.bonus sc"
  "payroll.leave_balance_amount (new_payroll f info sc u now) = components.leave_balance_amount sc"
  "payroll.pf_employee (new_payroll f info sc u now) = components.pf_employee sc"
  "payroll.pf_employer (new_payroll f info sc u now) = components.pf_employer sc"
  "payroll.vpf (new_payroll f info sc u now) = components.vpf sc"
  "payroll.pt (new_payroll f info sc u now) = components.pt sc"
  "payroll.charity (new_payroll f info sc u now) = components.charity sc"
  "payroll.misc_deduction (new_payroll f info sc u now) = components.misc_deduction sc"
  "payroll.additional_deduction (new_payroll f info sc u now) = components.additional_deduction sc"
  "payroll.gross_salary (new_payroll f info sc u now) = components.gross_salary sc"
  "payroll.total_deductions (new_payroll f info sc u now) = components.total_deductions sc"
  "payroll.net_salary (new_payroll f info sc u now) = components.net_salary sc"
  by (simp_all add: new_payroll_def)

section \<open>The payroll key\<close>

lemma find_Some_holds: "find P xs = Some x \<Longrightarrow> P x"
  by (induction xs) (auto split: if_splits)

lemma find_None_all: "find P xs = None \<Longrightarrow> x \<in> set xs \<Longrightarrow> \<not> P x"
  by (induction xs) (auto split: if_splits)


lemma same_period_key: "same_period f p \<longleftrightarrow> payroll_key p = (form.emp_id f, form.month f, form.year f)"
  by (auto simp: same_period_def payroll_key_def)

lemma payroll_key_new:
  "payroll_key (new_payroll f info sc u now) = (form.emp_id f, form.month f, form.year f)"
  by (simp add: payroll_key_def new_payroll_def)

lemma process_keeps_keys_distinct:
  assumes "distinct (map payroll_key (payrolls db))"
  shows "distinct (map payroll_key (payrolls (process_individual_payroll db f u now)))"
proof (cases "find_employee db (form.emp_id f)")
  case None
  then show ?thesis using assms by (simp add: process_unknown_employee)
next
  case (Some e)
  define p where "p = new_payroll f
     (fst (calculate_leave_balance db e (form.leaves_taken f) (form.month f) (form.year f)))
     (period_components e f
       (fst (calculate_leave_balance db e (form.leaves_taken f) (form.month f) (form.year f))))
     u now"
  have rows: "payrolls (process_individual_payroll db f u now) =
      (case find_payroll db f of
         Some existing \<Rightarrow> update_first (same_period f) (\<lambda>_. p) (payrolls db)
       | None \<Rightarrow> payrolls db @ [p])"
    unfolding p_def using process_payrolls [OF Some, of u now] by (simp only: Let_def)
  show ?thesis
  proof (cases "find_payroll db f")
    case None
    have fresh: "payroll_key p \<notin> payroll_key ` set (payrolls db)"
    proof
      assume "payroll_key p \<in> payroll_key ` set (payrolls db)"
      then obtain x where x: "x \<in> set (payrolls db)" "payroll_key x = payroll_key p"
        by auto
      from x(2) have "same_period f x"
        by (simp add: same_period_key p_def payroll_key_new)
      moreover from None have "find (same_period f) (payrolls db) = None"
        by (simp add: find_payroll_def)
      then have "\<not> same_period f x"
        using x(1) by (rule find_None_all)
      ultimately show False by contradiction
    qed
    with assms rows None show ?thesis by simp
  next
    case (Some existing)
    have "map payroll_key (update_first (same_period f) (\<lambda>_. p) (payrolls db)) =
          map payroll_key (payrolls db)"
      by (rule map_update_first) (simp add: same_period_key p_def payroll_key_new)
    with assms rows Some show ?thesis by simp
  qed
qed

lemma process_runs_keep_keys_distinct:
  "distinct (map payroll_key (payrolls db)) \<Longrightarrow>
   distinct (map payroll_key (payrolls (process_runs db rs)))"
proof (induction rs arbitrary: db)
  case Nil
  then show ?case by simp
next
  case (Cons r rs)
  obtain f u now where r: "r = (f, u, now)" by (cases r)
  from Cons.prems have "distinct (map payroll_key (payrolls (process_individual_payroll db f u now)))"
    by (rule process_keeps_keys_distinct)
  then show ?case unfolding r by (simp add: Cons.IH)
qed

section \<open>The database after January\<close>

lemma db_january_employee:
  "find_employee db_january ''E1'' = Some (emp_E1\<lparr>employee.leave_balance := 3\<rparr>)"
  by code_simp

lemma db_january_payroll: "find_payroll db_january (form_E1 ''January'' 2) \<noteq> None"
  by code_simp

lemma db_january_keys: "distinct (map payroll_key (payrolls db_january))"
  unfolding db_january_def
  by (rule process_keeps_keys_distinct) (simp add: db0_def)

lemma db_january_lengths:
  "length (payrolls db_january) = 1" "length (leave_transactions db_january) = 1"
  by code_simp+

section \<open>The one-off hike\<close>


lemma calculate_leave_balance_hike:
  "calculate_leave_balance db e (form.leaves_taken (f\<lparr>form.hike_amount := h\<rparr>))
     (form.month (f\<lparr>form.hike_amount := h\<rparr>)) (form.year (f\<lparr>form.hike_amount := h\<rparr>)) =
   calculate_leave_balance db e (form.leaves_taken f) (form.month f) (form.year f)"
  by simp


section \<open>Leave settlement\<close>

text \<open>
  C2. For every employee and every number of leave days taken, the settlement computes
  available = balance before this month + 1.5, used = min(taken, available), loss of pay
  days = max(0, taken - available), remaining balance = available - used, and returns
  paid days = 30 - loss of pay days and present days = 30 - taken. The balance before this
  month is the closing balance of the transaction the query returns, or the employee's
  stored balance when there is none. With a balance of 0 and 2 days taken: available 1.5,
  used 1.5, loss of pay 0.5, remaining 0.
\<close>

theorem leave_settlement_formulas:
  "(let balance_before =
          (case prev_transaction db (employee.emp_id e) of
             Some t \<Rightarrow> leave_transaction.balance_after t
           | None \<Rightarrow> employee.leave_balance e);
        available = balance_before + 1.5;
        used = min taken available;
        lop = max 0 (taken - available);
        remaining = available - used
    in current_balance db e = available \<and>
       fst (calculate_leave_balance db e taken m y) =
         \<lparr>leave_info.leave_balance_used = used,
          leave_info.loss_of_pay_days = lop,
          leave_info.remaining_balance = remaining,
          leave_info.paid_days = 30 - lop,
          leave_info.present_days = 30 - taken\<rparr>) \<and>
   current_balance (db0\<lparr>employees := [emp_E1\<lparr>employee.leave_balance := 0\<rparr>]\<rparr>)
     (emp_E1\<lparr>employee.leave_balance := 0\<rparr>) = 1.5 \<and>
   fst (calculate_leave_balance (db0\<lparr>employees := [emp_E1\<lparr>employee.leave_balance := 0\<rparr>]\<rparr>)
          (emp_E1\<lparr>employee.leave_balance := 0\<rparr>) 2 ''January'' 2024) =
     \<lparr>leave_info.leave_balance_used = 1.5,
      leave_info.loss_of_pay_days = 0.5,
      leave_info.remaining_balance = 0,
      leave_info.paid_days = 29.5,
      leave_info.present_days = 28\<rparr>"
proof -
  have cur: "current_balance db e =
      (case prev_transaction db (employee.emp_id e) of
         Some t \<Rightarrow> leave_transaction.balance_after t
       | None \<Rightarrow> employee.leave_balance e) + 1.5"
    by (simp add: current_balance_def monthly_allocation_def split: option.splits)
  have general: "(let balance_before =
          (case prev_transaction db (employee.emp_id e) of
             Some t \<Rightarrow> leave_transaction.balance_after t
           | None \<Rightarrow> employee.leave_balance e);
        available = balance_before + 1.5;
        used = min taken available;
        lop = max 0 (taken - available);
        remaining = available - used
    in current_balance db e = available \<and>
       fst (calculate_leave_balance db e taken m y) =
         \<lparr>leave_info.leave_balance_used = used,
          leave_info.loss_of_pay_days = lop,
          leave_info.remaining_balance = remaining,
          leave_info.paid_days = 30 - lop,
          leave_info.present_days = 30 - taken\<rparr>)"
    unfolding Let_def clb_fst cur by simp
  have c0: "current_balance (db0\<lparr>employees := [emp_E1\<lparr>employee.leave_balance := 0\<rparr>]\<rparr>)
     (emp_E1\<lparr>employee.leave_balance := 0\<rparr>) = 1.5"
    by (simp add: current_balance_def prev_transaction_def db0_def emp_E1_def
        monthly_allocation_def)
  have ex: "fst (calculate_leave_balance (db0\<lparr>employees := [emp_E1\<lparr>employee.leave_balance := 0\<rparr>]\<rparr>)
          (emp_E1\<lparr>employee.leave_balance := 0\<rparr>) 2 ''January'' 2024) =
     \<lparr>leave_info.leave_balance_used = 1.5,
      leave_info.loss_of_pay_days = 0.5,
      leave_info.remaining_balance = 0,
      leave_info.paid_days = 29.5,
      leave_info.present_days = 28\<rparr>"
    unfolding clb_fst c0 by simp
  from general c0 ex show ?thesis by blast
qed

text \<open>
  C10. The transaction a settlement writes is appended to the ledger and satisfies
  balance after = balance before + leaves allocated - leaves used, with 1.5 days
  allocated; the employee's stored leave balance after the settlement is the balance
  after of that transaction.
\<close>

theorem leave_transaction_balances:
  "find_employee db (employee.emp_id e) = Some e \<Longrightarrow>
   (let db' = snd (calculate_leave_balance db e taken m y);
        tx = last (leave_transactions db')
    in leave_transactions db' = leave_transactions db @ [tx] \<and>
       leave_transaction.balance_after tx =
         leave_transaction.balance_before tx + leave_transaction.leaves_allocated tx -
         leave_transaction.leaves_used tx \<and>
       leave_transaction.leaves_allocated tx = 1.5 \<and>
       map_option employee.leave_balance (find_employee db' (employee.emp_id e)) =
         Some (leave_transaction.balance_after tx))"
proof -
  assume found: "find_employee db (employee.emp_id e) = Some e"
  have "find (\<lambda>x. employee.emp_id x = employee.emp_id e)
          (employees (snd (calculate_leave_balance db e taken m y))) =
        map_option (\<lambda>x. x\<lparr>employee.leave_balance :=
                 current_balance db e - min taken (current_balance db e)\<rparr>)
          (find (\<lambda>x. employee.emp_id x = employee.emp_id e) (employees db))"
    unfolding clb_employees by (rule find_update_first) simp
  with found have emp: "map_option employee.leave_balance
      (find_employee (snd (calculate_leave_balance db e taken m y)) (employee.emp_id e)) =
      Some (current_balance db e - min taken (current_balance db e))"
    by (simp add: find_employee_def)
  show ?thesis
    unfolding Let_def clb_transactions emp
    by (simp add: monthly_allocation_def)
qed

theorem leave_transaction_balances_witness:
  "find_employee db0 (employee.emp_id emp_E1) = Some emp_E1 \<and>
   leave_transactions (snd (calculate_leave_balance db0 emp_E1 2 ''January'' 2024)) =
     [\<lparr>leave_transaction.emp_id = ''E1'',
       leave_transaction.month = ''January'',
       leave_transaction.year = 2024,
       leave_transaction.leaves_allocated = 1.5,
       leave_transaction.leaves_used = 2,
       leave_transaction.balance_before = 1.5,
       leave_transaction.balance_after = 1\<rparr>] \<and>
   map_option employee.leave_balance
     (find_employee (snd (calculate_leave_balance db0 emp_E1 2 ''January'' 2024)) ''E1'') = Some 1"
proof -
  have h: "find_employee db0 (employee.emp_id emp_E1) = Some emp_E1"
    by (simp add: find_employee_def db0_def emp_E1_def)
  have c: "current_balance db0 emp_E1 = 3"
    by (simp add: current_balance_def prev_transaction_def db0_def emp_E1_def
        monthly_allocation_def)
  have t: "leave_transactions (snd (calculate_leave_balance db0 emp_E1 2 ''January'' 2024)) =
     [\<lparr>leave_transaction.emp_id = ''E1'',
       leave_transaction.month = ''January'',
       leave_transaction.year = 2024,
       leave_transaction.leaves_allocated = 1.5,
       leave_transaction.leaves_used = 2,
       leave_transaction.balance_before = 1.5,
       leave_transaction.balance_after = 1\<rparr>]"
    unfolding clb_transactions c by (simp add: db0_def emp_E1_def monthly_allocation_def)
  have e: "employee.emp_id emp_E1 = ''E1''" by (simp add: emp_E1_def)
  show ?thesis
    using h t leave_transaction_balances [OF h, of 2 "''January''" 2024]
    by (simp add: Let_def e)
qed

section \<open>The previous transaction\<close>

text \<open>
  C3. The claim: the settlement of a new period starts from the closing balance of the
  employee's chronologically most recent transaction. The query orders the month column,
  a string, in descending order: with January and February 2024 processed, February is
  the later period, the month name January is the greater string, and the settlement of
  March starts from January's closing balance 3, not from February's 4.5.
\<close>

theorem month_name_order_picks_january:
  "map leave_transaction.month (leave_transactions db_jan_feb) = [''January'', ''February''] \<and>
   map leave_transaction.balance_after (leave_transactions db_jan_feb) = [3, 4.5] \<and>
   chrono_less (leave_transactions db_jan_feb ! 0) (leave_transactions db_jan_feb ! 1) \<and>
   period_less (leave_transactions db_jan_feb ! 1) (leave_transactions db_jan_feb ! 0) \<and>
   prev_transaction db_jan_feb ''E1'' = Some (leave_transactions db_jan_feb ! 0) \<and>
   leave_transaction.month (last (leave_transactions db_march)) = ''March'' \<and>
   leave_transaction.balance_before (last (leave_transactions db_march)) = 3"
  by code_simp

section \<open>Salary split\<close>

text \<open>
  C5. For every monthly CTC, with no loss of pay, the split is basic = 50% of CTC,
  HRA = 20% of basic, conveyance = 5% of CTC, medical = 5% of CTC and special allowance =
  CTC - basic - HRA - conveyance - medical, each rounded to two decimals and so within
  0.005 of the stated amount, and the five components sum to the CTC within 0.005; the
  sum is the CTC exactly when the CTC has at most two decimals. With no loss of pay days the
  scaling step changes nothing.
\<close>

theorem salary_split_sums_to_ctc:
  "(let sc = calculate_salary_components ctc pf d
    in components.basic sc = py_round2 (ctc * 0.50) \<and>
       components.hra sc = py_round2 (components.basic sc * 0.20) \<and>
       components.conveyance_allowance sc = py_round2 (ctc * 0.05) \<and>
       components.medical_allowance sc = py_round2 (ctc * 0.05) \<and>
       components.special_allowance sc =
         py_round2 (ctc - components.basic sc - components.hra sc -
                    components.conveyance_allowance sc - components.medical_allowance sc) \<and>
       \<bar>components.basic sc - ctc * 0.50\<bar> \<le> 0.005 \<and>
       \<bar>components.hra sc - components.basic sc * 0.20\<bar> \<le> 0.005 \<and>
       \<bar>components.conveyance_allowance sc - ctc * 0.05\<bar> \<le> 0.005 \<and>
       \<bar>components.medical_allowance sc - ctc * 0.05\<bar> \<le> 0.005 \<and>
       \<bar>components.special_allowance sc -
          (ctc - components.basic sc - components.hra sc -
           components.conveyance_allowance sc - components.medical_allowance sc)\<bar> \<le> 0.005 \<and>
       \<bar>components.basic sc + components.hra sc + components.conveyance_allowance sc +
          components.medical_allowance sc + components.special_allowance sc - ctc\<bar> \<le> 0.005 \<and>
       (cents ctc \<longrightarrow>
          components.basic sc + components.hra sc + components.conveyance_allowance sc +
          components.medical_allowance sc + components.special_allowance sc = ctc) \<and>
       scale_for_loss_of_pay (info\<lparr>leave_info.loss_of_pay_days := 0\<rparr>) sc = sc)"
proof -
  define b where "b = py_round2 (ctc * 0.50)"
  define h where "h = py_round2 (b * 0.20)"
  define c where "c = py_round2 (ctc * 0.05)"
  define s where "s = py_round2 (ctc - (b + h + c + c))"
  have eb: "\<bar>b - ctc * 0.50\<bar> \<le> 1 / 200" unfolding b_def by (rule py_round2_error)
  have eh: "\<bar>h - b * 0.20\<bar> \<le> 1 / 200" unfolding h_def by (rule py_round2_error)
  have ec: "\<bar>c - ctc * 0.05\<bar> \<le> 1 / 200" unfolding c_def by (rule py_round2_error)
  have es: "\<bar>s - (ctc - (b + h + c + c))\<bar> \<le> 1 / 200" unfolding s_def by (rule py_round2_error)
  have exact: "b + h + c + c + s = ctc" if "cents ctc"
  proof -
    have "cents (ctc - (b + h + c + c))"
      unfolding b_def h_def c_def
      by (intro cents_diff cents_add cents_py_round2 that)
    then have "s = ctc - (b + h + c + c)"
      unfolding s_def by (rule py_round2_cents)
    then show ?thesis by simp
  qed
  have noscale: "scale_for_loss_of_pay (info\<lparr>leave_info.loss_of_pay_days := 0\<rparr>) x = x" for x
    by (simp add: scale_for_loss_of_pay_def)
  have sp: "ctc - b - h - c - c = ctc - (b + h + c + c)" by simp
  have "b + h + c + c + s - ctc = s - (ctc - (b + h + c + c))" by simp
  then have sum: "\<bar>b + h + c + c + s - ctc\<bar> \<le> 1 / 200"
    using es by (simp only:)
  have eb': "\<bar>b - ctc * 0.50\<bar> \<le> 0.005" using eb by simp
  have eh': "\<bar>h - b * 0.20\<bar> \<le> 0.005" using eh by simp
  have ec': "\<bar>c - ctc * 0.05\<bar> \<le> 0.005" using ec by simp
  have es': "\<bar>s - (ctc - (b + h + c + c))\<bar> \<le> 0.005" using es by simp
  have sum': "\<bar>b + h + c + c + s - ctc\<bar> \<le> 0.005" using sum by simp
  show ?thesis
    unfolding Let_def csc_basic csc_hra csc_conveyance csc_medical csc_special noscale
      b_def [symmetric] h_def [symmetric] c_def [symmetric] sp s_def [symmetric]
    using eb' eh' ec' es' sum' exact by blast
qed

theorem salary_split_sums_to_ctc_witness:
  "cents 50000 \<and>
   components.basic (calculate_salary_components 50000 True 0) = 25000 \<and>
   components.hra (calculate_salary_components 50000 True 0) = 5000 \<and>
   components.conveyance_allowance (calculate_salary_components 50000 True 0) = 2500 \<and>
   components.medical_allowance (calculate_salary_components 50000 True 0) = 2500 \<and>
   components.special_allowance (calculate_salary_components 50000 True 0) = 15000 \<and>
   components.basic (calculate_salary_components 50000 True 0) +
   components.hra (calculate_salary_components 50000 True 0) +
   components.conveyance_allowance (calculate_salary_components 50000 True 0) +
   components.medical_allowance (calculate_salary_components 50000 True 0) +
   components.special_allowance (calculate_salary_components 50000 True 0) = 50000"
proof -
  have c: "cents 50000" by (simp add: cents_def)
  have v: "components.basic (calculate_salary_components 50000 True 0) = 25000"
    "components.hra (calculate_salary_components 50000 True 0) = 5000"
    "components.conveyance_allowance (calculate_salary_components 50000 True 0) = 2500"
    "components.medical_allowance (calculate_salary_components 50000 True 0) = 2500"
    "components.special_allowance (calculate_salary_components 50000 True 0) = 15000"
    by (simp_all add: csc_basic csc_hra csc_conveyance csc_medical csc_special
        py_round2_def round_half_even_def)
  show ?thesis
    using c v salary_split_sums_to_ctc [of 50000 True 0]
    by (simp add: Let_def)
qed

text \<open>
  C6 (amended). With PF opted, the employee PF is min(basic * 0.12, 1800) rounded to two
  decimals, so within 0.005 of it, and the employer PF is the same amount; with PF not
  opted both are 0. For a CTC of 50000 the employee PF is 1800.
\<close>

theorem pf_deduction_rounded:
  "components.pf_employee (calculate_salary_components ctc True d) =
     py_round2 (min (components.basic (calculate_salary_components ctc True d) * 0.12) 1800) \<and>
   components.pf_employer (calculate_salary_components ctc True d) =
     components.pf_employee (calculate_salary_components ctc True d) \<and>
   \<bar>components.pf_employee (calculate_salary_components ctc True d) -
      min (components.basic (calculate_salary_components ctc True d) * 0.12) 1800\<bar> \<le> 0.005 \<and>
   components.pf_employee (calculate_salary_components ctc False d) = 0 \<and>
   components.pf_employer (calculate_salary_components ctc False d) = 0 \<and>
   components.pf_employee (calculate_salary_components 50000 True d) = 1800"
proof -
  have e: "\<bar>py_round2 (min (py_round2 (ctc * 0.50) * 0.12) 1800) -
      min (py_round2 (ctc * 0.50) * 0.12) 1800\<bar> \<le> 0.005"
    using py_round2_error [of "min (py_round2 (ctc * 0.50) * 0.12) 1800"] by simp
  have c: "py_round2 (min (py_round2 (50000 * 0.50) * 0.12) 1800) = 1800"
    by (simp add: py_round2_def round_half_even_def)
  show ?thesis
    unfolding csc_pf_employee csc_pf_employer csc_basic
    using e c by simp
qed

text \<open>
  The unrounded equation fails: a CTC of 100.02 has basic 50.01, and 12% of it, 6.0012,
  is stored as 6.00.
\<close>

theorem pf_unrounded_counterexample:
  "components.pf_employee (calculate_salary_components 100.02 True 0) \<noteq>
     min (components.basic (calculate_salary_components 100.02 True 0) * 0.12) 1800"
  by (simp add: csc_pf_employee csc_basic py_round2_def round_half_even_def)

section \<open>Totals\<close>

text \<open>
  C7 (amended). In the split of a CTC and in every record a run stores, net salary =
  gross salary - total deductions, where gross salary is the sum of the nine earning
  components rounded to two decimals and total deductions is the sum of the six
  deduction components rounded to two decimals.
\<close>

theorem net_is_gross_minus_deductions:
  "(let sc = calculate_salary_components ctc pf d
    in components.net_salary sc = components.gross_salary sc - components.total_deductions sc \<and>
       components.gross_salary sc =
         py_round2 (components.basic sc + components.hra sc + components.special_allowance sc +
           components.conveyance_allowance sc + components.medical_allowance sc +
           components.overtime_amount sc + components.expenses sc + components.bonus sc +
           components.leave_balance_amount sc) \<and>
       components.total_deductions sc =
         py_round2 (components.pf_employee sc + components.vpf sc + components.pt sc +
           components.charity sc + components.misc_deduction sc +
           components.additional_deduction sc)) \<and>
   (find_employee db (form.emp_id f) = Some e \<longrightarrow>
      (\<exists>p. find_payroll (process_individual_payroll db f u now) f = Some p \<and>
           payroll.net_salary p = payroll.gross_salary p - payroll.total_deductions p \<and>
           payroll.gross_salary p =
             py_round2 (payroll.basic_salary p + payroll.hra p + payroll.special_allowance p +
               payroll.conveyance_allowance p + payroll.medical_allowance p +
               payroll.overtime_amount p + payroll.expenses p + payroll.bonus p +
               payroll.leave_balance_amount p) \<and>
           payroll.total_deductions p =
             py_round2 (payroll.pf_employee p + payroll.vpf p + payroll.pt p +
               payroll.charity p + payroll.misc_deduction p + payroll.additional_deduction p)))"
proof -
  have plain: "(let sc = calculate_salary_components ctc pf d
    in components.net_salary sc = components.gross_salary sc - components.total_deductions sc \<and>
       components.gross_salary sc =
         py_round2 (components.basic sc + components.hra sc + components.special_allowance sc +
           components.conveyance_allowance sc + components.medical_allowance sc +
           components.overtime_amount sc + components.expenses sc + components.bonus sc +
           components.leave_balance_amount sc) \<and>
       components.total_deductions sc =
         py_round2 (components.pf_employee sc + components.vpf sc + components.pt sc +
           components.charity sc + components.misc_deduction sc +
           components.additional_deduction sc))"
    unfolding Let_def
    using csc_net_exact [of ctc pf d] csc_gross [of ctc pf d] csc_total_deductions [of ctc pf d]
    by (simp add: csc_variable csc_other_deductions)
  have stored: "\<exists>p. find_payroll (process_individual_payroll db f u now) f = Some p \<and>
           payroll.net_salary p = payroll.gross_salary p - payroll.total_deductions p \<and>
           payroll.gross_salary p =
             py_round2 (payroll.basic_salary p + payroll.hra p + payroll.special_allowance p +
               payroll.conveyance_allowance p + payroll.medical_allowance p +
               payroll.overtime_amount p + payroll.expenses p + payroll.bonus p +
               payroll.leave_balance_amount p) \<and>
           payroll.total_deductions p =
             py_round2 (payroll.pf_employee p + payroll.vpf p + payroll.pt p +
               payroll.charity p + payroll.misc_deduction p + payroll.additional_deduction p)"
    if found: "find_employee db (form.emp_id f) = Some e"
  proof -
    define info where
      "info = fst (calculate_leave_balance db e (form.leaves_taken f) (form.month f) (form.year f))"
    define sc where "sc = period_components e f info"
    have rec: "find_payroll (process_individual_payroll db f u now) f =
        Some (new_payroll f info sc u now)"
      unfolding info_def sc_def by (rule process_stores_record [OF found])
    have n: "components.net_salary sc = components.gross_salary sc - components.total_deductions sc"
      unfolding sc_def by (rule pc_net_exact)
    have g: "components.gross_salary sc =
         py_round2 (components.basic sc + components.hra sc + components.special_allowance sc +
           components.conveyance_allowance sc + components.medical_allowance sc +
           components.overtime_amount sc + components.expenses sc + components.bonus sc +
           components.leave_balance_amount sc)"
      unfolding sc_def by (rule pc_gross)
    have t: "components.total_deductions sc =
         py_round2 (components.pf_employee sc + components.vpf sc + components.pt sc +
           components.charity sc + components.misc_deduction sc +
           components.additional_deduction sc)"
      unfolding sc_def by (rule pc_total_deductions)
    show ?thesis
      using rec n g t by (simp add: np_fields)
  qed
  from plain stored show ?thesis by blast
qed

theorem net_is_gross_minus_deductions_witness:
  "find_employee db0 (form.emp_id (form_E1 ''January'' 0)) = Some emp_E1 \<and>
   (\<exists>p. find_payroll (process_individual_payroll db0 (form_E1 ''January'' 0) ''hr'' 0)
          (form_E1 ''January'' 0) = Some p \<and>
        payroll.net_salary p = payroll.gross_salary p - payroll.total_deductions p)"
proof -
  have h: "find_employee db0 (form.emp_id (form_E1 ''January'' 0)) = Some emp_E1"
    by (simp add: form_E1_fields find_employee_db0)
  show ?thesis
    using h net_is_gross_minus_deductions [of 50000 True 0 db0 "form_E1 ''January'' 0" emp_E1 "''hr''" 0]
    by blast
qed

text \<open>
  Gross salary is not the plain sum: with an overtime amount of 0.004 the components of
  the stored record sum to 50300.004 and the gross salary is 50300.
\<close>

theorem gross_not_plain_sum_counterexample:
  "payroll.gross_salary (last (payrolls db_overtime)) \<noteq>
     payroll.basic_salary (last (payrolls db_overtime)) +
     payroll.hra (last (payrolls db_overtime)) +
     payroll.special_allowance (last (payrolls db_overtime)) +
     payroll.conveyance_allowance (last (payrolls db_overtime)) +
     payroll.medical_allowance (last (payrolls db_overtime)) +
     payroll.overtime_amount (last (payrolls db_overtime)) +
     payroll.expenses (last (payrolls db_overtime)) +
     payroll.bonus (last (payrolls db_overtime)) +
     payroll.leave_balance_amount (last (payrolls db_overtime))"
  by code_simp

section \<open>Loss of pay\<close>

text \<open>
  C1. The claim: in a run with loss of pay days > 0 each of basic, HRA, special allowance,
  conveyance and medical is scaled by (1 - loss of pay days / 30) and rounded to two
  decimals on its own, and the PF deduction of the record is min(scaled basic * 12%, 1800).
  The run does scale the five components, but it leaves the PF at the amount computed
  from the unscaled basic. Employee E1 has a CTC of 50000 and 3 days of leave available;
  with 18 days taken there are 15 days of loss of pay, the stored basic is 12500, 12% of
  it is 1500, and the stored PF is 1800.
\<close>

theorem pf_kept_from_unscaled_basic:
  "payroll.leaves_taken (last (payrolls db_lop15)) = 18 \<and>
   payroll.loss_of_pay_days (last (payrolls db_lop15)) = 15 \<and>
   payroll.basic_salary (last (payrolls db_lop15)) = 12500 \<and>
   min (payroll.basic_salary (last (payrolls db_lop15)) * 0.12) 1800 = 1500 \<and>
   payroll.pf_employee (last (payrolls db_lop15)) = 1800 \<and>
   payroll.total_deductions (last (payrolls db_lop15)) = 1800 \<and>
   payroll.pf_employee (last (payrolls db_lop15)) \<noteq>
     min (payroll.basic_salary (last (payrolls db_lop15)) * 0.12) 1800"
  by code_simp

text \<open>
  What every run with loss of pay stores: the five components scaled and rounded one by
  one, and the PF amount that \<^const>\<open>calculate_salary_components\<close> returned.
\<close>

lemma loss_of_pay_scaling:
  assumes found: "find_employee db (form.emp_id f) = Some e"
    and lop: "0 < leave_info.loss_of_pay_days
      (fst (calculate_leave_balance db e (form.leaves_taken f) (form.month f) (form.year f)))"
  shows "\<exists>p. find_payroll (process_individual_payroll db f u now) f = Some p \<and>
     (let sc0 = calculate_salary_components (employee.ctc_monthly e + form.hike_amount f)
                  (form.pf_opted f) (form.deduction_amount f);
          ratio = payroll.loss_of_pay_days p / 30
      in payroll.loss_of_pay_days p = form.leaves_taken f - current_balance db e \<and>
         0 < payroll.loss_of_pay_days p \<and>
         payroll.basic_salary p = py_round2 (components.basic sc0 * (1 - ratio)) \<and>
         payroll.hra p = py_round2 (components.hra sc0 * (1 - ratio)) \<and>
         payroll.special_allowance p =
           py_round2 (components.special_allowance sc0 * (1 - ratio)) \<and>
         payroll.conveyance_allowance p =
           py_round2 (components.conveyance_allowance sc0 * (1 - ratio)) \<and>
         payroll.medical_allowance p =
           py_round2 (components.medical_allowance sc0 * (1 - ratio)) \<and>
         payroll.pf_employee p = components.pf_employee sc0 \<and>
         payroll.pf_employee p =
           (if form.pf_opted f then py_round2 (min (components.basic sc0 * 0.12) 1800) else 0))"
proof -
  define info where
    "info = fst (calculate_leave_balance db e (form.leaves_taken f) (form.month f) (form.year f))"
  define sc0 where
    "sc0 = calculate_salary_components (employee.ctc_monthly e + form.hike_amount f)
             (form.pf_opted f) (form.deduction_amount f)"
  have rec: "find_payroll (process_individual_payroll db f u now) f =
      Some (new_payroll f info (period_components e f info) u now)"
    unfolding info_def by (rule process_stores_record [OF found])
  have pos: "0 < leave_info.loss_of_pay_days info"
    using lop by (simp add: info_def)
  have days: "leave_info.loss_of_pay_days info = form.leaves_taken f - current_balance db e"
    using pos unfolding info_def clb_fst by (simp add: max_def split: if_splits)
  have pf: "components.pf_employee sc0 =
      (if form.pf_opted f then py_round2 (min (components.basic sc0 * 0.12) 1800) else 0)"
    unfolding sc0_def csc_pf_employee csc_basic by simp
  have scaled:
    "components.basic (period_components e f info) =
       py_round2 (components.basic sc0 * (1 - leave_info.loss_of_pay_days info / 30))"
    "components.hra (period_components e f info) =
       py_round2 (components.hra sc0 * (1 - leave_info.loss_of_pay_days info / 30))"
    "components.special_allowance (period_components e f info) =
       py_round2 (components.special_allowance sc0 * (1 - leave_info.loss_of_pay_days info / 30))"
    "components.conveyance_allowance (period_components e f info) =
       py_round2 (components.conveyance_allowance sc0 * (1 - leave_info.loss_of_pay_days info / 30))"
    "components.medical_allowance (period_components e f info) =
       py_round2 (components.medical_allowance sc0 * (1 - leave_info.loss_of_pay_days info / 30))"
    unfolding pc_earnings sc0_def by (rule scale_earnings [OF pos])+
  have kept: "components.pf_employee (period_components e f info) = components.pf_employee sc0"
    unfolding sc0_def by (rule pc_deductions)
  show ?thesis
    unfolding sc0_def [symmetric] Let_def rec
    using pos pf by (simp add: np_fields scaled kept days [symmetric])
qed

lemma loss_of_pay_scaling_witness:
  "find_employee db0 (form.emp_id (form_E1 ''January'' 4)) = Some emp_E1 \<and>
   0 < leave_info.loss_of_pay_days
     (fst (calculate_leave_balance db0 emp_E1 (form.leaves_taken (form_E1 ''January'' 4))
        (form.month (form_E1 ''January'' 4)) (form.year (form_E1 ''January'' 4)))) \<and>
   (\<exists>p. find_payroll (process_individual_payroll db0 (form_E1 ''January'' 4) ''hr'' 0)
          (form_E1 ''January'' 4) = Some p \<and>
        payroll.loss_of_pay_days p = 1 \<and>
        payroll.basic_salary p = 24166.67 \<and>
        payroll.hra p = 4833.33 \<and>
        payroll.special_allowance p = 14500 \<and>
        payroll.conveyance_allowance p = 2416.67 \<and>
        payroll.medical_allowance p = 2416.67 \<and>
        payroll.pf_employee p = 1800)"
proof -
  have h: "find_employee db0 (form.emp_id (form_E1 ''January'' 4)) = Some emp_E1"
    by (simp add: form_E1_fields find_employee_db0)
  have l: "0 < leave_info.loss_of_pay_days
     (fst (calculate_leave_balance db0 emp_E1 (form.leaves_taken (form_E1 ''January'' 4))
        (form.month (form_E1 ''January'' 4)) (form.year (form_E1 ''January'' 4))))"
    unfolding clb_fst by (simp add: form_E1_fields current_balance_db0)
  have c: "employee.ctc_monthly emp_E1 = 50000" by (simp add: emp_E1_def)
  from loss_of_pay_scaling [OF h l, of "''hr''" 0]
  obtain p where p:
    "find_payroll (process_individual_payroll db0 (form_E1 ''January'' 4) ''hr'' 0)
       (form_E1 ''January'' 4) = Some p"
    "payroll.loss_of_pay_days p = 1"
    "payroll.basic_salary p =
       py_round2 (components.basic (calculate_salary_components 50000 True 0) * (1 - 1 / 30))"
    "payroll.hra p =
       py_round2 (components.hra (calculate_salary_components 50000 True 0) * (1 - 1 / 30))"
    "payroll.special_allowance p =
       py_round2 (components.special_allowance (calculate_salary_components 50000 True 0) *
                  (1 - 1 / 30))"
    "payroll.conveyance_allowance p =
       py_round2 (components.conveyance_allowance (calculate_salary_components 50000 True 0) *
                  (1 - 1 / 30))"
    "payroll.medical_allowance p =
       py_round2 (components.medical_allowance (calculate_salary_components 50000 True 0) *
                  (1 - 1 / 30))"
    "payroll.pf_employee p = components.pf_employee (calculate_salary_components 50000 True 0)"
    by (auto simp: Let_def form_E1_fields current_balance_db0 c)
  have v: "payroll.basic_salary p = 24166.67" "payroll.hra p = 4833.33"
    "payroll.special_allowance p = 14500" "payroll.conveyance_allowance p = 2416.67"
    "payroll.medical_allowance p = 2416.67" "payroll.pf_employee p = 1800"
    unfolding p csc_basic csc_hra csc_special csc_conveyance csc_medical csc_pf_employee
    by (simp_all add: py_round2_def round_half_even_def)
  from h l p(1,2) v show ?thesis by blast
qed

section \<open>Attendance\<close>

text \<open>
  C4 (amended). The record a run stores has total days 30, present days = 30 - leaves
  taken and paid days = 30 - loss of pay days, both truncated towards zero to a whole
  number. Present days + leaves taken = total days holds exactly when the leaves taken
  are a whole number, and paid days = total days - loss of pay days holds exactly when
  the loss of pay days are a whole number.
\<close>

theorem attendance_days_truncated:
  "find_employee db (form.emp_id f) = Some e \<Longrightarrow>
   \<exists>p. find_payroll (process_individual_payroll db f u now) f = Some p \<and>
       payroll.total_days p = 30 \<and>
       payroll.leaves_taken p = form.leaves_taken f \<and>
       payroll.loss_of_pay_days p = max 0 (form.leaves_taken f - current_balance db e) \<and>
       payroll.present_days p = py_int (30 - payroll.leaves_taken p) \<and>
       payroll.paid_days p = py_int (30 - payroll.loss_of_pay_days p) \<and>
       (payroll.leaves_taken p \<in> \<int> \<longrightarrow>
          of_int (payroll.present_days p) + payroll.leaves_taken p =
          of_int (payroll.total_days p)) \<and>
       (payroll.loss_of_pay_days p \<in> \<int> \<longrightarrow>
          of_int (payroll.paid_days p) =
          of_int (payroll.total_days p) - payroll.loss_of_pay_days p)"
proof -
  assume found: "find_employee db (form.emp_id f) = Some e"
  define info where
    "info = fst (calculate_leave_balance db e (form.leaves_taken f) (form.month f) (form.year f))"
  have rec: "find_payroll (process_individual_payroll db f u now) f =
      Some (new_payroll f info (period_components e f info) u now)"
    unfolding info_def by (rule process_stores_record [OF found])
  have lop: "leave_info.loss_of_pay_days info = max 0 (form.leaves_taken f - current_balance db e)"
    and paid: "leave_info.paid_days info = 30 - leave_info.loss_of_pay_days info"
    and present: "leave_info.present_days info = 30 - form.leaves_taken f"
    unfolding info_def clb_fst by simp_all
  have w1: "of_int (py_int (30 - x)) + x = 30" if "x \<in> \<int>" for x :: real
  proof -
    from that have "30 - x \<in> \<int>" by (intro Ints_diff) simp_all
    then have "of_int (py_int (30 - x)) = 30 - x" by (rule py_int_whole)
    then show ?thesis by simp
  qed
  have w2: "of_int (py_int (30 - x)) = 30 - x" if "x \<in> \<int>" for x :: real
    using that by (intro py_int_whole Ints_diff) simp_all
  show ?thesis
    using rec lop [symmetric] w1 w2
    by (simp add: np_fields paid present lop)
qed

theorem attendance_days_truncated_witness:
  "find_employee db0 (form.emp_id (form_E1 ''January'' 4)) = Some emp_E1 \<and>
   (\<exists>p. find_payroll (process_individual_payroll db0 (form_E1 ''January'' 4) ''hr'' 0)
          (form_E1 ''January'' 4) = Some p \<and>
        payroll.leaves_taken p = 4 \<and> payroll.leaves_taken p \<in> \<int> \<and>
        payroll.loss_of_pay_days p = 1 \<and> payroll.loss_of_pay_days p \<in> \<int> \<and>
        payroll.total_days p = 30 \<and> payroll.present_days p = 26 \<and> payroll.paid_days p = 29 \<and>
        of_int (payroll.present_days p) + payroll.leaves_taken p = of_int (payroll.total_days p) \<and>
        of_int (payroll.paid_days p) = of_int (payroll.total_days p) - payroll.loss_of_pay_days p)"
proof -
  have h: "find_employee db0 (form.emp_id (form_E1 ''January'' 4)) = Some emp_E1"
    by (simp add: form_E1_fields find_employee_db0)
  from attendance_days_truncated [OF h, of "''hr''" 0]
  obtain p where p:
    "find_payroll (process_individual_payroll db0 (form_E1 ''January'' 4) ''hr'' 0)
       (form_E1 ''January'' 4) = Some p"
    "payroll.total_days p = 30"
    "payroll.leaves_taken p = 4"
    "payroll.loss_of_pay_days p = 1"
    "payroll.present_days p = py_int (30 - payroll.leaves_taken p)"
    "payroll.paid_days p = py_int (30 - payroll.loss_of_pay_days p)"
    by (auto simp: form_E1_fields current_balance_db0)
  have "payroll.present_days p = 26" "payroll.paid_days p = 29"
    using p by (simp_all add: py_int_def)
  with h p show ?thesis by simp
qed

text \<open>
  With 3.5 days taken against 3 available, the record has 26 present days and 29 paid
  days, 0.5 loss of pay days: neither identity holds.
\<close>

theorem attendance_identities_counterexample:
  "of_int (payroll.present_days (last (payrolls db_half_day))) +
     payroll.leaves_taken (last (payrolls db_half_day)) \<noteq>
   of_int (payroll.total_days (last (payrolls db_half_day))) \<and>
   of_int (payroll.paid_days (last (payrolls db_half_day))) \<noteq>
   of_int (payroll.total_days (last (payrolls db_half_day))) -
     payroll.loss_of_pay_days (last (payrolls db_half_day))"
  by code_simp

section \<open>Re-processing a period\<close>

text \<open>
  C9. A run for an employee and a period that already has a payroll row replaces that row
  where it stands by the row a first run would have created, every column overwritten,
  and the table keeps its length. So if no two rows share (employee, month, year) before
  a sequence of runs, and in particular if the table starts empty, no two rows share it
  afterwards. Every run for a known employee appends one leave transaction for that
  employee and period.
\<close>

theorem payroll_upsert:
  "(find_employee db (form.emp_id f) = Some e \<longrightarrow>
      (let db' = process_individual_payroll db f u now;
           info = fst (calculate_leave_balance db e (form.leaves_taken f) (form.month f)
                         (form.year f));
           p = new_payroll f info (period_components e f info) u now
       in (find_payroll db f \<noteq> None \<longrightarrow>
             payrolls db' = update_first (same_period f) (\<lambda>_. p) (payrolls db) \<and>
             length (payrolls db') = length (payrolls db) \<and>
             find_payroll db' f = Some p) \<and>
          (\<exists>tx. leave_transactions db' = leave_transactions db @ [tx] \<and>
                leave_transaction.emp_id tx = form.emp_id f \<and>
                leave_transaction.month tx = form.month f \<and>
                leave_transaction.year tx = form.year f))) \<and>
   (distinct (map payroll_key (payrolls db)) \<longrightarrow>
      distinct (map payroll_key (payrolls (process_runs db rs)))) \<and>
   distinct (map payroll_key
      (payrolls (process_runs \<lparr>employees = es, payrolls = [], leave_transactions = ts\<rparr> rs)))"
proof -
  have run: "(let db' = process_individual_payroll db f u now;
           info = fst (calculate_leave_balance db e (form.leaves_taken f) (form.month f)
                         (form.year f));
           p = new_payroll f info (period_components e f info) u now
       in (find_payroll db f \<noteq> None \<longrightarrow>
             payrolls db' = update_first (same_period f) (\<lambda>_. p) (payrolls db) \<and>
             length (payrolls db') = length (payrolls db) \<and>
             find_payroll db' f = Some p) \<and>
          (\<exists>tx. leave_transactions db' = leave_transactions db @ [tx] \<and>
                leave_transaction.emp_id tx = form.emp_id f \<and>
                leave_transaction.month tx = form.month f \<and>
                leave_transaction.year tx = form.year f))"
    if found: "find_employee db (form.emp_id f) = Some e"
  proof -
    have id: "employee.emp_id e = form.emp_id f"
      using find_Some_holds [of "\<lambda>x. employee.emp_id x = form.emp_id f" "employees db" e] found
      by (simp add: find_employee_def)
    have rows: "find_payroll db f \<noteq> None \<Longrightarrow>
        payrolls (process_individual_payroll db f u now) =
          update_first (same_period f)
            (\<lambda>_. new_payroll f
               (fst (calculate_leave_balance db e (form.leaves_taken f) (form.month f) (form.year f)))
               (period_components e f
                 (fst (calculate_leave_balance db e (form.leaves_taken f) (form.month f)
                        (form.year f))))
               u now)
            (payrolls db)"
      using process_payrolls [OF found, of u now] by (auto simp: Let_def)
    have txs: "\<exists>tx. leave_transactions (process_individual_payroll db f u now) =
          leave_transactions db @ [tx] \<and>
        leave_transaction.emp_id tx = form.emp_id f \<and>
        leave_transaction.month tx = form.month f \<and>
        leave_transaction.year tx = form.year f"
      unfolding process_transactions [OF found] clb_transactions by (simp add: id)
    show ?thesis
      unfolding Let_def
      using rows txs process_stores_record [OF found, of u now]
      by (simp add: length_update_first)
  qed
  have empty: "distinct (map payroll_key
      (payrolls (process_runs \<lparr>employees = es, payrolls = [], leave_transactions = ts\<rparr> rs)))"
    by (rule process_runs_keep_keys_distinct) simp
  from run process_runs_keep_keys_distinct [of db rs] empty show ?thesis by blast
qed

theorem payroll_upsert_witness:
  "find_employee db_january (form.emp_id (form_E1 ''January'' 2)) =
     Some (emp_E1\<lparr>employee.leave_balance := 3\<rparr>) \<and>
   find_payroll db_january (form_E1 ''January'' 2) \<noteq> None \<and>
   distinct (map payroll_key (payrolls db_january)) \<and>
   length (payrolls db_january) = 1 \<and>
   length (payrolls (process_individual_payroll db_january (form_E1 ''January'' 2) ''hr'' 1)) = 1 \<and>
   length (leave_transactions db_january) = 1 \<and>
   length (leave_transactions
     (process_individual_payroll db_january (form_E1 ''January'' 2) ''hr'' 1)) = 2 \<and>
   distinct (map payroll_key
     (payrolls (process_runs db_january [(form_E1 ''January'' 2, ''hr'', 1)])))"
proof -
  have h1: "find_employee db_january (form.emp_id (form_E1 ''January'' 2)) =
     Some (emp_E1\<lparr>employee.leave_balance := 3\<rparr>)"
    by (simp add: form_E1_fields db_january_employee)
  note h2 = db_january_payroll
  note h3 = db_january_keys
  note upsert = payroll_upsert [of db_january "form_E1 ''January'' 2"
      "emp_E1\<lparr>employee.leave_balance := 3\<rparr>" "''hr''" 1
      "[(form_E1 ''January'' 2, ''hr'', 1)]", unfolded Let_def]
  from upsert h1 h2
  have rows: "length (payrolls (process_individual_payroll db_january (form_E1 ''January'' 2) ''hr'' 1)) =
      length (payrolls db_january)"
    by blast
  from upsert h1
  have txs: "\<exists>tx. leave_transactions
        (process_individual_payroll db_january (form_E1 ''January'' 2) ''hr'' 1) =
        leave_transactions db_january @ [tx]"
    by blast
  from upsert h3
  have keys: "distinct (map payroll_key
      (payrolls (process_runs db_january [(form_E1 ''January'' 2, ''hr'', 1)])))"
    by blast
  from txs have "length (leave_transactions
     (process_individual_payroll db_january (form_E1 ''January'' 2) ''hr'' 1)) = 2"
    using db_january_lengths(2) by auto
  with h1 h2 h3 rows keys db_january_lengths show ?thesis by simp
qed

section \<open>Hikes\<close>



end
